theory Spec2Isabelle
  imports Main
begin

section \<open>Annotation transfer of NCBI feature tables (\<open>ncbi.py\<close>, \<open>tbl_transfer\<close>)\<close>

text \<open>
  \<open>tbl_transfer\<close> reads a feature table line by line, maps the coordinates of every
  feature through a coordinate mapper and writes the lines it keeps. The model below
  follows the source branch by branch. Strings are lists of bytes; the model covers
  ASCII documents and the semantics of Python 3 for \<open>int\<close>, \<open>str\<close>, \<open>strip\<close>,
  \<open>split\<close> and \<open>join\<close>.
\<close>

subsection \<open>Python string primitives\<close>

definition TAB :: char where
  "TAB = CHR 0x09"

definition LF :: char where
  "LF = CHR 0x0A"

definition CR :: char where
  "CR = CHR 0x0D"

text \<open>\<open>s.startswith(p)\<close> and \<open>s.endswith(p)\<close>.\<close>

definition startswith :: "string \<Rightarrow> string \<Rightarrow> bool" where
  "startswith p s = (take (length p) s = p)"

definition endswith :: "string \<Rightarrow> string \<Rightarrow> bool" where
  "endswith p s = (length p \<le> length s \<and> drop (length s - length p) s = p)"

text \<open>\<open>p in s\<close> on strings: \<open>p\<close> occurs in \<open>s\<close> as a contiguous substring.\<close>

fun contains :: "string \<Rightarrow> string \<Rightarrow> bool" where
  "contains p [] = (p = [])"
| "contains p (c # cs) = (startswith p (c # cs) \<or> contains p cs)"

text \<open>\<open>line.rstrip('\r\n')\<close>: every trailing carriage return and line feed is removed.\<close>

definition rstrip_crlf :: "string \<Rightarrow> string" where
  "rstrip_crlf s = rev (dropWhile (\<lambda>c. c = CR \<or> c = LF) (rev s))"

text \<open>
  The whitespace of \<open>str.strip()\<close> in the ASCII range: the bytes \<open>0x09\<close> to
  \<open>0x0D\<close>, the separators \<open>0x1C\<close> to \<open>0x1F\<close> and the space.
\<close>

definition is_space :: "char \<Rightarrow> bool" where
  "is_space c = (c \<in> set [CHR 0x09, CHR 0x0A, CHR 0x0B, CHR 0x0C, CHR 0x0D,
                           CHR 0x1C, CHR 0x1D, CHR 0x1E, CHR 0x1F, CHR 0x20])"

definition strip :: "string \<Rightarrow> string" where
  "strip s = rev (dropWhile is_space (rev (dropWhile is_space s)))"

text \<open>\<open>line.split('\t')\<close>: the fields between tabs; there is always at least one field.\<close>

fun split_tab :: "string \<Rightarrow> string list" where
  "split_tab [] = [[]]"
| "split_tab (c # cs) =
     (if c = TAB then [] # split_tab cs
      else (case split_tab cs of [] \<Rightarrow> [[c]] | f # fs \<Rightarrow> (c # f) # fs))"

text \<open>\<open>'\t'.join(row)\<close>.\<close>

fun join_tab :: "string list \<Rightarrow> string" where
  "join_tab [] = []"
| "join_tab [x] = x"
| "join_tab (x # y # ys) = x @ TAB # join_tab (y # ys)"

subsection \<open>Integers: \<open>int(s)\<close> and \<open>str(n)\<close>\<close>

definition is_digit :: "char \<Rightarrow> bool" where
  "is_digit c = (c \<in> set ''0123456789'')"

definition digit_val :: "char \<Rightarrow> nat" where
  "digit_val c = of_char c - 48"

definition digit_char :: "nat \<Rightarrow> char" where
  "digit_char d = char_of (48 + d)"

text \<open>
  The digits of a decimal literal: at least one digit, single underscores allowed
  between digits. The flag says that a digit must come next (at the start and after
  an underscore).
\<close>

fun py_digits :: "bool \<Rightarrow> nat \<Rightarrow> string \<Rightarrow> nat option" where
  "py_digits need acc [] = (if need then None else Some acc)"
| "py_digits need acc (c # cs) =
     (if is_digit c then py_digits False (10 * acc + digit_val c) cs
      else if c = CHR ''_'' \<and> \<not> need then py_digits True acc cs
      else None)"

text \<open>
  The whitespace that \<open>int()\<close> skips around the digits of an ASCII string is narrower
  than that of \<open>str.strip()\<close>: the bytes \<open>0x09\<close> to \<open>0x0D\<close> and the space. The
  separators \<open>0x1C\<close> to \<open>0x1F\<close> are not skipped; \<open>int('\x1c5')\<close> raises
  \<open>ValueError\<close>.
\<close>

definition is_space_int :: "char \<Rightarrow> bool" where
  "is_space_int c = (c \<in> set [CHR 0x09, CHR 0x0A, CHR 0x0B, CHR 0x0C, CHR 0x0D, CHR 0x20])"

definition strip_int :: "string \<Rightarrow> string" where
  "strip_int s = rev (dropWhile is_space_int (rev (dropWhile is_space_int s)))"

text \<open>
  \<open>int(s)\<close> in base 10: that whitespace is skipped on both sides, one sign may
  precede the digits. \<open>None\<close> stands for the \<open>ValueError\<close> that Python raises.
\<close>

definition int_py :: "string \<Rightarrow> int option" where
  "int_py s =
     (case strip_int s of
        [] \<Rightarrow> None
      | c # cs \<Rightarrow>
          if c = CHR ''-'' then map_option (\<lambda>n. - int n) (py_digits True 0 cs)
          else if c = CHR ''+'' then map_option int (py_digits True 0 cs)
          else map_option int (py_digits True 0 (c # cs)))"

function str_nat :: "nat \<Rightarrow> string" where
  "str_nat n = (if n < 10 then [digit_char n] else str_nat (n div 10) @ [digit_char (n mod 10)])"
  by pat_completeness auto
termination
  by (relation "measure id") auto

declare str_nat.simps [simp del]

definition str_int :: "int \<Rightarrow> string" where
  "str_int i = (if i < 0 then CHR ''-'' # str_nat (nat (- i)) else str_nat (nat i))"

subsection \<open>The collaborators of \<open>tbl_transfer\<close>\<close>

text \<open>
  Modelled from the spec: \<open>interhost.CoordMapper\<close> is not part of the source at hand.
  Its method \<open>mapAtoB\<close> is taken as a parameter with the interface the specification
  gives: called with a sequence id alone it returns the id of the alternate sequence
  and fails outside its domain (\<open>None\<close> here); called with a sequence id, a position
  and a side (\<open>-1\<close> or \<open>1\<close>) it returns the mapped position, or Python's \<open>None\<close>
  when the position has no counterpart.
\<close>

record coord_mapper =
  mapAtoB_chr :: "string \<Rightarrow> string option"
  mapAtoB_pos :: "string \<Rightarrow> int \<Rightarrow> int \<Rightarrow> int option"

text \<open>
  \<open>fasta_chrlens\<close>: the dictionary from sequence id to sequence length. The records
  of the FASTA file (id and sequence, as the parser of Biopython yields them) are the
  input; a later record with the same id overwrites an earlier one.
\<close>

fun chrlens_loop :: "(string \<rightharpoonup> nat) \<Rightarrow> (string \<times> string) list \<Rightarrow> (string \<rightharpoonup> nat)" where
  "chrlens_loop out [] = out"
| "chrlens_loop out ((seq_id, sq) # recs) = chrlens_loop (out(seq_id \<mapsto> length sq)) recs"

definition fasta_chrlens :: "(string \<times> string) list \<Rightarrow> (string \<rightharpoonup> nat)" where
  "fasta_chrlens fasta = chrlens_loop Map.empty fasta"

subsection \<open>The loop body of \<open>tbl_transfer\<close>\<close>

text \<open>
  Every exception the loop can raise. \<open>NonFeatureRecord\<close>, \<open>NotGenBankAccession\<close>
  and \<open>OnlyOneColumn\<close> are the three \<open>raise Exception(...)\<close> of the source,
  \<open>ValueError\<close> comes from \<open>int\<close>, \<open>UnmappableIdentifier\<close> from the coordinate
  mapper, \<open>UnboundLocalError\<close> from reading a local variable that no header has set,
  \<open>KeyError\<close> from \<open>alt_chrlens[altid]\<close>.
\<close>

datatype error =
    NonFeatureRecord
  | NotGenBankAccession
  | OnlyOneColumn
  | ValueError
  | UnmappableIdentifier
  | UnboundLocalError
  | KeyError

text \<open>
  The local variables that live across iterations. Each is unbound (\<open>None\<close>) until
  an assignment reaches it.
\<close>

record transfer_ctx =
  seqid :: "string option"
  altid :: "string option"
  feature_keep :: "bool option"

definition ctx_unbound :: transfer_ctx where
  "ctx_unbound = \<lparr>seqid = None, altid = None, feature_keep = None\<rparr>"

text \<open>
  The two calls of the mapper on a coordinate line: \<open>row[1] >= row[0]\<close> selects the
  sides.
\<close>

definition map_row :: "coord_mapper \<Rightarrow> string \<Rightarrow> int \<Rightarrow> int \<Rightarrow> int option \<times> int option" where
  "map_row cmap sid r0 r1 =
     (if r1 \<ge> r0 then (mapAtoB_pos cmap sid r0 (- 1), mapAtoB_pos cmap sid r1 1)
      else (mapAtoB_pos cmap sid r0 1, mapAtoB_pos cmap sid r1 (- 1)))"

text \<open>Truth value of a mapped position: \<open>None\<close> and \<open>0\<close> are false.\<close>

definition truthy :: "int option \<Rightarrow> bool" where
  "truthy m = (case m of None \<Rightarrow> False | Some p \<Rightarrow> p \<noteq> 0)"

text \<open>\<open>str\<close> of a mapped position that is not \<open>None\<close>.\<close>

definition str_pos :: "int option \<Rightarrow> string" where
  "str_pos m = (case m of None \<Rightarrow> ''None'' | Some p \<Rightarrow> str_int p)"

text \<open>
  A step returns the exception, or the new context together with the line to write
  (\<open>None\<close> after \<open>continue\<close>).
\<close>

type_synonym step_result = "error + (transfer_ctx \<times> string option)"

text \<open>The branch \<open>line.startswith('>')\<close>.\<close>

definition header_line :: "coord_mapper \<Rightarrow> transfer_ctx \<Rightarrow> string \<Rightarrow> step_result" where
  "header_line cmap ctx line =
     (if \<not> startswith ''>Feature '' line then Inl NonFeatureRecord
      else
        let sid = strip (drop (length ''>Feature '') line) in
        if \<not> (startswith ''gb|'' sid \<and> endswith ''|'' sid \<and> length sid > 4)
        then Inl NotGenBankAccession
        else
          let sid' = drop 3 (butlast sid) in
          (case mapAtoB_chr cmap sid' of
             None \<Rightarrow> Inl UnmappableIdentifier
           | Some aid \<Rightarrow>
               Inr (\<lparr>seqid = Some sid', altid = Some aid, feature_keep = Some True\<rparr>,
                    Some (''>Feature '' @ aid))))"

text \<open>The branch \<open>line[0] != '\t'\<close>: a feature with numeric coordinates.\<close>

definition coord_line ::
  "coord_mapper \<Rightarrow> (string \<rightharpoonup> nat) \<Rightarrow> bool \<Rightarrow> transfer_ctx \<Rightarrow> string \<Rightarrow> step_result" where
  "coord_line cmap alt_chrlens oob_clip ctx line =
     (let row = split_tab line in
      if \<not> length row \<ge> 2 then Inl OnlyOneColumn
      else
        case int_py (row ! 0) of None \<Rightarrow> Inl ValueError | Some r0 \<Rightarrow>
        case int_py (row ! 1) of None \<Rightarrow> Inl ValueError | Some r1 \<Rightarrow>
        case seqid ctx of None \<Rightarrow> Inl UnboundLocalError | Some sid \<Rightarrow>
        let (m0, m1) = map_row cmap sid r0 r1 in
        if truthy m0 \<and> truthy m1 then
          Inr (ctx\<lparr>feature_keep := Some True\<rparr>,
               Some (join_tab (str_pos m0 # str_pos m1 # drop 2 row)))
        else if m0 = None \<and> m1 = None then
          Inr (ctx\<lparr>feature_keep := Some False\<rparr>, None)
        else if oob_clip then
          (let c0 = (if m0 = None then ''<1'' else str_pos m0) in
           if m1 = None then
             (case altid ctx of None \<Rightarrow> Inl UnboundLocalError | Some aid \<Rightarrow>
              case alt_chrlens aid of None \<Rightarrow> Inl KeyError | Some n \<Rightarrow>
                Inr (ctx, Some (join_tab (c0 # (''>'' @ str_nat n) # drop 2 row))))
           else Inr (ctx, Some (join_tab (c0 # str_pos m1 # drop 2 row))))
        else Inr (ctx\<lparr>feature_keep := Some False\<rparr>, None))"

text \<open>The last branch: feature notes.\<close>

definition qualifier_line :: "transfer_ctx \<Rightarrow> string \<Rightarrow> step_result" where
  "qualifier_line ctx line =
     (case feature_keep ctx of
        None \<Rightarrow> Inl UnboundLocalError
      | Some keep \<Rightarrow>
          if \<not> keep then Inr (ctx, None)
          else if contains ''protein_id'' line then Inr (ctx, None)
          else Inr (ctx, Some line))"

text \<open>One iteration of \<open>for line in inf\<close>.\<close>

definition tbl_line ::
  "coord_mapper \<Rightarrow> (string \<rightharpoonup> nat) \<Rightarrow> bool \<Rightarrow> transfer_ctx \<Rightarrow> string \<Rightarrow> step_result" where
  "tbl_line cmap alt_chrlens oob_clip ctx raw =
     (let line = rstrip_crlf raw in
      if line = [] then Inr (ctx, Some line)
      else if startswith ''>'' line then header_line cmap ctx line
      else if hd line \<noteq> TAB then coord_line cmap alt_chrlens oob_clip ctx line
      else qualifier_line ctx line)"

subsection \<open>The loop and the function\<close>

text \<open>
  The output file is the list of the lines written so far, each of which
  \<open>outf.write(line+'\n')\<close> terminates with a line feed. An exception ends the loop;
  what was written before stays in the file.
\<close>

fun tbl_loop ::
  "coord_mapper \<Rightarrow> (string \<rightharpoonup> nat) \<Rightarrow> bool \<Rightarrow> transfer_ctx \<Rightarrow> string list \<Rightarrow> string list
     \<Rightarrow> string list \<times> error option" where
  "tbl_loop cmap alt_chrlens oob_clip ctx outf [] = (outf, None)"
| "tbl_loop cmap alt_chrlens oob_clip ctx outf (raw # rest) =
     (case tbl_line cmap alt_chrlens oob_clip ctx raw of
        Inl e \<Rightarrow> (outf, Some e)
      | Inr (ctx', None) \<Rightarrow> tbl_loop cmap alt_chrlens oob_clip ctx' outf rest
      | Inr (ctx', Some line) \<Rightarrow> tbl_loop cmap alt_chrlens oob_clip ctx' (outf @ [line]) rest)"

definition tbl_transfer ::
  "coord_mapper \<Rightarrow> (string \<times> string) list \<Rightarrow> string list \<Rightarrow> bool \<Rightarrow> string list \<times> error option" where
  "tbl_transfer cmap alt_fasta ref_tbl oob_clip =
     tbl_loop cmap (fasta_chrlens alt_fasta) oob_clip ctx_unbound [] ref_tbl"

definition file_content :: "string list \<Rightarrow> string" where
  "file_content outf = concat (map (\<lambda>line. line @ [LF]) outf)"

subsection \<open>The classes of lines\<close>

text \<open>
  The four classes the loop distinguishes, in the order of its tests, on the line
  without its terminator.
\<close>

definition is_blank :: "string \<Rightarrow> bool" where
  "is_blank raw = (rstrip_crlf raw = [])"

definition is_header :: "string \<Rightarrow> bool" where
  "is_header raw = startswith ''>'' (rstrip_crlf raw)"

definition is_coordinate :: "string \<Rightarrow> bool" where
  "is_coordinate raw =
     (let line = rstrip_crlf raw in line \<noteq> [] \<and> \<not> startswith ''>'' line \<and> hd line \<noteq> TAB)"

definition is_qualifier :: "string \<Rightarrow> bool" where
  "is_qualifier raw = (let line = rstrip_crlf raw in line \<noteq> [] \<and> hd line = TAB)"

text \<open>A header line comes before every coordinate and qualifier line.\<close>

fun header_first :: "string list \<Rightarrow> bool" where
  "header_first [] = True"
| "header_first (raw # rest) = (if is_blank raw then header_first rest else is_header raw)"

text \<open>All three local variables are bound.\<close>

definition ctx_bound :: "transfer_ctx \<Rightarrow> bool" where
  "ctx_bound ctx = (seqid ctx \<noteq> None \<and> altid ctx \<noteq> None \<and> feature_keep ctx \<noteq> None)"

subsection \<open>The specification's vocabulary\<close>

text \<open>
  Strand and sides as the specification words them: \<open>forward = end >= start\<close>; on the
  forward strand the start is mapped with side \<open>-1\<close> and the end with side \<open>+1\<close>,
  on the reverse strand the sides swap.
\<close>

definition forward :: "int \<Rightarrow> int \<Rightarrow> bool" where
  "forward start end = (end \<ge> start)"

definition start_bias :: "bool \<Rightarrow> int" where
  "start_bias fwd = (if fwd then - 1 else 1)"

definition end_bias :: "bool \<Rightarrow> int" where
  "end_bias fwd = (if fwd then 1 else - 1)"

subsection \<open>Concrete inputs\<close>

text \<open>
  A mapper that knows the sequence \<open>A\<close>, whose positions 3 to 12 correspond to the
  positions 5 to 14 of the alternate sequence \<open>B\<close> of length 15.
\<close>

definition cm_demo :: coord_mapper where
  "cm_demo =
     \<lparr>mapAtoB_chr = [''A'' \<mapsto> ''B''],
      mapAtoB_pos = (\<lambda>sid p side. if sid = ''A'' \<and> 3 \<le> p \<and> p \<le> 12 then Some (p + 2) else None)\<rparr>"

definition fasta_demo :: "(string \<times> string) list" where
  "fasta_demo = [(''B'', ''ACGTACGTACGTACG'')]"

definition ctx_demo :: transfer_ctx where
  "ctx_demo = \<lparr>seqid = Some ''A'', altid = Some ''B'', feature_keep = Some False\<rparr>"

text \<open>A mapper whose result shows the side it was called with.\<close>

definition cm_side :: coord_mapper where
  "cm_side = \<lparr>mapAtoB_chr = Some, mapAtoB_pos = (\<lambda>sid p side. Some (10 * p + side))\<rparr>"

text \<open>
  A table with a feature outside the alignable region, a feature that overhangs its
  end, and a qualifier of the latter.
\<close>

definition tbl_overhang :: "string list" where
  "tbl_overhang =
     [''>Feature gb|A|'' @ [LF],
      ''1'' @ [TAB] @ ''2'' @ [TAB] @ ''gene'' @ [LF],
      ''10'' @ [TAB] @ ''20'' @ [TAB] @ ''CDS'' @ [LF],
      [TAB, TAB, TAB] @ ''product'' @ [TAB] @ ''foo'' @ [LF]]"

text \<open>A table with an empty line between the header and a feature.\<close>

definition tbl_blank :: "string list" where
  "tbl_blank =
     [''>Feature gb|A|'' @ [LF],
      [LF],
      ''4'' @ [TAB] @ ''8'' @ [TAB] @ ''gene'' @ [LF]]"


text \<open>Two qualifier lines, the first with a protein identifier.\<close>

definition qual_protein_id :: string where
  "qual_protein_id = [TAB, TAB, TAB] @ ''protein_id'' @ [TAB] @ ''gb|AAA00001.1|'' @ [LF]"

definition qual_product :: string where
  "qual_product = [TAB, TAB, TAB] @ ''product'' @ [TAB] @ ''foo'' @ [LF]"


subsection \<open>Malformed lines and known identifiers\<close>

text \<open>
  The accession of a header is wrapped as \<open>gb|ACCESSION|\<close>, with an accession that is
  not empty.
\<close>

definition gb_wrapped :: "string \<Rightarrow> bool" where
  "gb_wrapped sid = (\<exists>acc. acc \<noteq> [] \<and> sid = ''gb|'' @ acc @ ''|'')"

text \<open>
  A malformed header: a line that starts with \<open>>\<close> and is not of the form
  \<open>>Feature \<close> followed by a wrapped accession.
\<close>

definition malformed_header :: "string \<Rightarrow> bool" where
  "malformed_header raw =
     (is_header raw \<and>
      (let line = rstrip_crlf raw in
       \<not> startswith ''>Feature '' line \<or> \<not> gb_wrapped (strip (drop (length ''>Feature '') line))))"

text \<open>
  A malformed coordinate line: fewer than two columns, or one of the first two columns
  is not an integer.
\<close>

definition malformed_coordinate :: "string \<Rightarrow> bool" where
  "malformed_coordinate raw =
     (is_coordinate raw \<and>
      (let row = split_tab (rstrip_crlf raw) in
       length row < 2 \<or> int_py (row ! 0) = None \<or> int_py (row ! 1) = None))"

text \<open>The grammar of the document: every line is of one of the four well-formed kinds.\<close>

definition wellformed_line :: "string \<Rightarrow> bool" where
  "wellformed_line raw =
     (is_blank raw \<or>
      (is_header raw \<and> \<not> malformed_header raw) \<or>
      (is_coordinate raw \<and> \<not> malformed_coordinate raw) \<or>
      is_qualifier raw)"

text \<open>The accession of a well-formed header line.\<close>

definition accession :: "string \<Rightarrow> string" where
  "accession raw = drop 3 (butlast (strip (drop (length ''>Feature '') (rstrip_crlf raw))))"

text \<open>
  The mapper knows the accession of a header line and, when clipping is on, the length
  table has an entry for the alternate id.
\<close>

definition id_known :: "coord_mapper \<Rightarrow> (string \<rightharpoonup> nat) \<Rightarrow> bool \<Rightarrow> string \<Rightarrow> bool" where
  "id_known cmap cl clip raw =
     (case mapAtoB_chr cmap (accession raw) of
        None \<Rightarrow> False
      | Some aid \<Rightarrow> clip \<longrightarrow> cl aid \<noteq> None)"

definition ids_known :: "coord_mapper \<Rightarrow> (string \<rightharpoonup> nat) \<Rightarrow> bool \<Rightarrow> string list \<Rightarrow> bool" where
  "ids_known cmap cl clip doc =
     (\<forall>raw\<in>set doc. is_header raw \<and> \<not> malformed_header raw \<longrightarrow> id_known cmap cl clip raw)"

text \<open>
  The context after a header whose identifiers are known, and the context in which
  every feature so far was kept.
\<close>

definition ctx_ok :: "(string \<rightharpoonup> nat) \<Rightarrow> bool \<Rightarrow> transfer_ctx \<Rightarrow> bool" where
  "ctx_ok cl clip ctx =
     (seqid ctx \<noteq> None \<and> feature_keep ctx \<noteq> None \<and>
      (case altid ctx of None \<Rightarrow> False | Some aid \<Rightarrow> clip \<longrightarrow> cl aid \<noteq> None))"

definition ctx_keep :: "transfer_ctx \<Rightarrow> bool" where
  "ctx_keep ctx = (seqid ctx \<noteq> None \<and> altid ctx \<noteq> None \<and> feature_keep ctx = Some True)"

subsection \<open>Order-preserving mappers and the identity mapper\<close>

text \<open>
  Modelled from the spec: the mapper is a base-to-base correspondence between two
  aligned sequences, whose side tells in which direction a position without a
  counterpart is rounded. Such a mapper keeps the order of a position rounded down and a
  position rounded up: the lower of two positions, rounded down, stays at or below the
  higher one rounded up, and strictly below when the positions differ.
\<close>

definition outward_monotone :: "coord_mapper \<Rightarrow> string \<Rightarrow> bool" where
  "outward_monotone cmap sid =
     (\<forall>p q x y. mapAtoB_pos cmap sid p (- 1) = Some x \<longrightarrow> mapAtoB_pos cmap sid q 1 = Some y \<longrightarrow>
        (p \<le> q \<longrightarrow> x \<le> y) \<and> (p < q \<longrightarrow> x < y))"

text \<open>
  Modelled from the spec: a mapped position is a position of the alternate sequence,
  and positions are counted from 1.
\<close>

definition one_based :: "coord_mapper \<Rightarrow> string \<Rightarrow> bool" where
  "one_based cmap sid = (\<forall>p side x. mapAtoB_pos cmap sid p side = Some x \<longrightarrow> 1 \<le> x)"

text \<open>The identity mapping: every id and every position maps to itself under every side.\<close>

definition cm_identity :: coord_mapper where
  "cm_identity = \<lparr>mapAtoB_chr = Some, mapAtoB_pos = (\<lambda>sid p side. Some p)\<rparr>"

text \<open>
  A coordinate line whose two endpoints are written the way \<open>str\<close> prints them and are
  not zero.
\<close>

definition canonical_coordinate :: "string \<Rightarrow> bool" where
  "canonical_coordinate raw =
     (is_coordinate raw \<and>
      (case split_tab (rstrip_crlf raw) of
         c0 # c1 # cols \<Rightarrow>
           (case int_py c0 of None \<Rightarrow> False | Some r0 \<Rightarrow>
            (case int_py c1 of None \<Rightarrow> False | Some r1 \<Rightarrow>
               r0 \<noteq> 0 \<and> r1 \<noteq> 0 \<and> str_int r0 = c0 \<and> str_int r1 = c1))
       | _ \<Rightarrow> False))"

text \<open>The lines that the identity transfer gives back.\<close>

definition roundtrip_line :: "string \<Rightarrow> bool" where
  "roundtrip_line raw =
     (is_blank raw \<or>
      (is_header raw \<and> \<not> malformed_header raw) \<or>
      canonical_coordinate raw \<or>
      (is_qualifier raw \<and> \<not> contains ''protein_id'' (rstrip_crlf raw)))"

text \<open>
  The input line as the output should show it: without its terminator, and a header
  with its accession unwrapped.
\<close>

definition expected_line :: "string \<Rightarrow> string" where
  "expected_line raw =
     (if is_header raw then ''>Feature '' @ accession raw else rstrip_crlf raw)"

subsection \<open>More concrete inputs\<close>

text \<open>
  Two features that overhang the end of the alignable region, the second on the reverse
  strand, and a line whose first column carries the separator \<open>0x1C\<close>.
\<close>

definition coord_overhang :: string where
  "coord_overhang = ''10'' @ [TAB] @ ''20'' @ [TAB] @ ''CDS'' @ [LF]"

definition coord_reverse_overhang :: string where
  "coord_reverse_overhang = ''20'' @ [TAB] @ ''10'' @ [TAB] @ ''CDS'' @ [LF]"

definition line_separator :: string where
  "line_separator = [CHR 0x1C] @ ''5'' @ [TAB] @ ''8'' @ [TAB] @ ''gene'' @ [LF]"

definition coord_outside :: string where
  "coord_outside = ''1'' @ [TAB] @ ''2'' @ [TAB] @ ''gene'' @ [LF]"

definition coord_inside :: string where
  "coord_inside = ''4'' @ [TAB] @ ''8'' @ [TAB] @ ''gene'' @ [LF]"

definition coord_reverse :: string where
  "coord_reverse = ''8'' @ [TAB] @ ''4'' @ [TAB] @ ''CDS'' @ [LF]"

definition header_A :: string where
  "header_A = ''>Feature gb|A|'' @ [LF]"

definition header_X :: string where
  "header_X = ''>Feature gb|X|'' @ [LF]"

definition line_abc :: string where
  "line_abc = ''abc'' @ [LF]"

text \<open>
  A table with a dropped feature followed by a reverse-strand feature that overhangs
  with its start, and the latter's qualifier.
\<close>

definition tbl_reverse_overhang :: "string list" where
  "tbl_reverse_overhang = [header_A, coord_outside, coord_reverse_overhang, qual_product]"

text \<open>
  A clipped feature with two qualifiers, once as the first feature of its record and
  once after a dropped feature.
\<close>

definition tbl_clipped_first :: "string list" where
  "tbl_clipped_first = [header_A, coord_overhang, qual_protein_id, qual_product]"

definition tbl_clipped_second :: "string list" where
  "tbl_clipped_second = [header_A, coord_outside, coord_overhang, qual_protein_id, qual_product]"

text \<open>A table with a line of one column after the header.\<close>

definition tbl_malformed :: "string list" where
  "tbl_malformed = [header_A, line_abc, coord_inside]"

text \<open>A table that the identity transfer gives back.\<close>

definition tbl_roundtrip :: "string list" where
  "tbl_roundtrip = [header_A, [LF], coord_inside, qual_product, coord_reverse]"

text \<open>A well-formed table with a protein identifier.\<close>

definition tbl_protein :: "string list" where
  "tbl_protein = [header_A, coord_inside, qual_protein_id]"

section \<open>Properties\<close>

subsection \<open>Dispatch of the loop body\<close>

lemma startswith_gt: "startswith ''>'' line = (line \<noteq> [] \<and> hd line = CHR ''>'')"
  by (cases line) (auto simp: startswith_def)

lemma tbl_line_blank:
  "is_blank raw \<Longrightarrow> tbl_line cmap cl clip ctx raw = Inr (ctx, Some [])"
  by (simp add: tbl_line_def is_blank_def)

lemma tbl_line_header:
  "is_header raw \<Longrightarrow> tbl_line cmap cl clip ctx raw = header_line cmap ctx (rstrip_crlf raw)"
  by (auto simp: tbl_line_def is_header_def startswith_gt)

lemma tbl_line_coord:
  "is_coordinate raw \<Longrightarrow>
     tbl_line cmap cl clip ctx raw = coord_line cmap cl clip ctx (rstrip_crlf raw)"
  by (simp add: tbl_line_def is_coordinate_def Let_def)

lemma tbl_line_qualifier:
  "is_qualifier raw \<Longrightarrow> tbl_line cmap cl clip ctx raw = qualifier_line ctx (rstrip_crlf raw)"
  by (auto simp: tbl_line_def is_qualifier_def Let_def startswith_gt TAB_def)

lemma line_classes:
  "is_blank raw \<or> is_header raw \<or> is_coordinate raw \<or> is_qualifier raw"
  by (auto simp: is_blank_def is_header_def is_coordinate_def is_qualifier_def Let_def)

text \<open>The coordinate branch once the row is parsed and the sequence id is bound.\<close>

lemma coord_line_parsed:
  assumes "split_tab line = c0 # c1 # cols"
    and "int_py c0 = Some r0" and "int_py c1 = Some r1"
    and "seqid ctx = Some sid" and "map_row cmap sid r0 r1 = (m0, m1)"
  shows "coord_line cmap cl clip ctx line =
    (if truthy m0 \<and> truthy m1 then
       Inr (ctx\<lparr>feature_keep := Some True\<rparr>, Some (join_tab (str_pos m0 # str_pos m1 # cols)))
     else if m0 = None \<and> m1 = None then
       Inr (ctx\<lparr>feature_keep := Some False\<rparr>, None)
     else if clip then
       (let f0 = (if m0 = None then ''<1'' else str_pos m0) in
        if m1 = None then
          (case altid ctx of None \<Rightarrow> Inl UnboundLocalError | Some aid \<Rightarrow>
           (case cl aid of None \<Rightarrow> Inl KeyError | Some n \<Rightarrow>
             Inr (ctx, Some (join_tab (f0 # (''>'' @ str_nat n) # cols)))))
        else Inr (ctx, Some (join_tab (f0 # str_pos m1 # cols))))
     else Inr (ctx\<lparr>feature_keep := Some False\<rparr>, None))"
  using assms by (simp add: coord_line_def Let_def numeral_2_eq_2 cong: option.case_cong)

subsection \<open>The length table\<close>

lemma chrlens_loop_map_of:
  "chrlens_loop out fasta aid =
     (case map_of (rev fasta) aid of None \<Rightarrow> out aid | Some sq \<Rightarrow> Some (length sq))"
proof (induction out fasta rule: chrlens_loop.induct)
  case (1 out)
  then show ?case by simp
next
  case (2 out seq_id sq recs)
  show ?case
    by (simp add: "2.IH" map_add_def split: option.splits)
qed

text \<open>
  The length that \<open>fasta_chrlens\<close> stores for an id is the length of the last record of
  the FASTA file with that id.
\<close>

lemma fasta_chrlens_map_of:
  "fasta_chrlens fasta aid = map_option length (map_of (rev fasta) aid)"
  by (simp add: fasta_chrlens_def chrlens_loop_map_of split: option.splits)

subsection \<open>C1: one endpoint unmapped\<close>

text \<open>
  What the branch of a coordinate line does when the mapper maps exactly one of the two
  endpoints: without \<open>oob_clip\<close> the feature is dropped (nothing is written,
  \<open>feature_keep\<close> becomes false); with \<open>oob_clip\<close> the line is written, an unmapped
  first column as \<open><1\<close> and an unmapped second column as \<open>>LEN\<close>, where \<open>LEN\<close> is
  the entry of the alternate id in the table of \<open>fasta_chrlens\<close>. The column alone
  decides, whatever the strand, and the context is returned as it was.
\<close>

lemma clip_branch_by_column:
  assumes "is_coordinate raw"
    and "split_tab (rstrip_crlf raw) = c0 # c1 # cols"
    and "int_py c0 = Some r0" and "int_py c1 = Some r1"
    and "seqid ctx = Some sid" and "altid ctx = Some aid"
    and "map_row cmap sid r0 r1 = (m0, m1)"
    and "(m0 = None) \<noteq> (m1 = None)"
    and "fasta_chrlens alt_fasta aid = Some LEN"
  shows "tbl_line cmap (fasta_chrlens alt_fasta) oob_clip ctx raw =
    (if \<not> oob_clip then Inr (ctx\<lparr>feature_keep := Some False\<rparr>, None)
     else Inr (ctx, Some (join_tab
            ((case m0 of None \<Rightarrow> ''<1'' | Some p \<Rightarrow> str_int p) #
             (case m1 of None \<Rightarrow> ''>'' @ str_nat LEN | Some p \<Rightarrow> str_int p) # cols))))"
  using assms
  by (auto simp: tbl_line_coord coord_line_parsed truthy_def str_pos_def)

text \<open>
  C1. The claim asks that with clipping the feature be retained and that the marker
  agree with the boundary that the unmapped endpoint is under the strand of the
  feature. The clip branch does neither. It leaves \<open>feature_keep\<close> as the feature
  before set it: read after a dropped feature (\<open>ctx_demo\<close> has the flag false), the
  forward line 10..20 is written clipped as \<open>12 >15\<close>, the flag is still false and the
  qualifier that follows is skipped. And it chooses the marker by the column, although
  the branch above it maps the two strands apart: in \<open>tbl_reverse_overhang\<close> the
  start 20 of the reverse line 20..10 is its high end, it is written as \<open><1\<close>, the
  line comes out as the forward feature 1..12, and its qualifier is lost as well.
\<close>

theorem C1_clipped_feature_not_retained:
  "feature_keep ctx_demo = Some False \<and>
   tbl_line cm_demo (fasta_chrlens fasta_demo) True ctx_demo coord_overhang =
     Inr (ctx_demo, Some (''12'' @ [TAB] @ ''>15'' @ [TAB] @ ''CDS'')) \<and>
   tbl_loop cm_demo (fasta_chrlens fasta_demo) True ctx_demo [] [coord_overhang, qual_product] =
     ([''12'' @ [TAB] @ ''>15'' @ [TAB] @ ''CDS''], None) \<and>
   tbl_transfer cm_demo fasta_demo tbl_reverse_overhang True =
     ([''>Feature B'', ''<1'' @ [TAB] @ ''12'' @ [TAB] @ ''CDS''], None) \<and>
   \<not> forward 20 10 \<and> forward 1 12"
  by code_simp

subsection \<open>C2: the retain flag after a clipped feature\<close>

text \<open>
  C2. The claim asks that \<open>feature_keep\<close> be true after a coordinate line that is
  retained by clipping, so that its qualifier lines are written even when the feature
  before it was dropped. The clip branch writes the coordinate line but assigns nothing
  to \<open>feature_keep\<close>: the flag of the feature before stays in force. In
  \<open>tbl_overhang\<close> the first feature is dropped, the second is written clipped, and its
  qualifier line is missing from the output.
\<close>

theorem C2_clipped_feature_loses_qualifiers:
  "tbl_transfer cm_demo fasta_demo tbl_overhang True =
     ([''>Feature B'', ''12'' @ [TAB] @ ''>15'' @ [TAB] @ ''CDS''], None)"
  by code_simp

subsection \<open>C5: strand and sides\<close>

text \<open>
  C5. The two endpoints are mapped with the sides the specification names: the strand
  is \<open>forward = end >= start\<close>; on the forward strand the start is mapped with side
  \<open>-1\<close> and the end with side \<open>+1\<close>, on the reverse strand the start with \<open>+1\<close>
  and the end with \<open>-1\<close>. The equation holds for every mapper, so these are the
  arguments of the two calls.
\<close>

theorem C5_strand_and_sides:
  "map_row cmap sid start end =
     (mapAtoB_pos cmap sid start (start_bias (forward start end)),
      mapAtoB_pos cmap sid end (end_bias (forward start end)))"
  by (simp add: map_row_def forward_def start_bias_def end_bias_def)

theorem C5_strand_and_sides_witness:
  "map_row cm_side ''A'' 4 8 = (Some 39, Some 81) \<and>
   map_row cm_side ''A'' 8 4 = (Some 81, Some 39) \<and>
   map_row cm_side ''A'' 5 5 = (Some 49, Some 51)"
  using C5_strand_and_sides [of cm_side "''A''" 4 8]
    C5_strand_and_sides [of cm_side "''A''" 8 4]
    C5_strand_and_sides [of cm_side "''A''" 5 5]
  by (simp add: cm_side_def forward_def start_bias_def end_bias_def)

subsection \<open>C6: qualifier lines\<close>

text \<open>
  What the branch of a qualifier line does while \<open>feature_keep\<close> is bound: the context
  stays as it is, and the line is written, unchanged, exactly when the flag is true and
  the line does not contain \<open>protein_id\<close>. So a line with \<open>protein_id\<close> is never
  written, whatever the flag.
\<close>

lemma qualifier_written_iff_flag:
  assumes "is_qualifier raw" and "feature_keep ctx = Some keep"
  shows "tbl_line cmap cl clip ctx raw =
    Inr (ctx, if keep \<and> \<not> contains ''protein_id'' (rstrip_crlf raw)
              then Some (rstrip_crlf raw) else None)"
  using assms by (simp add: tbl_line_qualifier qualifier_line_def)

text \<open>
  C6. The first half of the claim holds: the line with \<open>protein_id\<close> is in neither
  output below. The second half asks that every other qualifier line of a retained
  feature be written. The flag that decides is not the decision on the feature: the
  clip branch writes the coordinate line without assigning \<open>feature_keep\<close>. The same
  clipped feature keeps its \<open>product\<close> qualifier when it is the first feature after
  the header (\<open>tbl_clipped_first\<close>) and loses it when a dropped feature precedes it
  (\<open>tbl_clipped_second\<close>).
\<close>

theorem C6_retained_feature_qualifier_dropped:
  "tbl_transfer cm_demo fasta_demo tbl_clipped_first True =
     ([''>Feature B'', ''12'' @ [TAB] @ ''>15'' @ [TAB] @ ''CDS'',
       [TAB, TAB, TAB] @ ''product'' @ [TAB] @ ''foo''], None) \<and>
   tbl_transfer cm_demo fasta_demo tbl_clipped_second True =
     ([''>Feature B'', ''12'' @ [TAB] @ ''>15'' @ [TAB] @ ''CDS''], None)"
  by code_simp

subsection \<open>C7: blank lines\<close>

text \<open>
  C7 as stated fails: the branch of an empty line is \<open>pass\<close>, after which the loop body
  reaches \<open>outf.write(line+'\n')\<close> like every branch that does not \<open>continue\<close>. The
  empty line of \<open>tbl_blank\<close> is in the output.
\<close>

theorem C7_blank_line_written:
  "tbl_transfer cm_demo fasta_demo tbl_blank False =
     ([''>Feature B'', [], ''6'' @ [TAB] @ ''10'' @ [TAB] @ ''gene''], None)"
  by code_simp

text \<open>
  C7, amended. Every blank line is written to the output as an empty line, and the
  context is unchanged by it.
\<close>

theorem C7_blank_line_passed_through:
  assumes "is_blank raw"
  shows "tbl_loop cmap cl clip ctx outf (raw # rest) =
    tbl_loop cmap cl clip ctx (outf @ [[]]) rest"
  using assms by (simp add: tbl_line_blank)

theorem C7_blank_line_passed_through_witness:
  "is_blank [CR, LF] \<and>
   tbl_loop cm_demo Map.empty False ctx_demo [''>Feature B''] [[CR, LF]] =
     ([''>Feature B'', []], None)"
proof -
  have blank: "is_blank [CR, LF]"
    by code_simp
  show ?thesis
    using blank
      C7_blank_line_passed_through [OF blank, of cm_demo Map.empty False ctx_demo "[''>Feature B'']" "[]"]
    by simp
qed

subsection \<open>C4: both endpoints unmapped\<close>

text \<open>Qualifier lines read while \<open>feature_keep\<close> is false leave no trace.\<close>

lemma skip_qualifiers:
  assumes "feature_keep ctx = Some False" and "\<forall>q\<in>set quals. is_qualifier q"
  shows "tbl_loop cmap cl clip ctx outf (quals @ rest) = tbl_loop cmap cl clip ctx outf rest"
  using assms by (induction quals) (simp_all add: tbl_line_qualifier qualifier_line_def)

text \<open>
  C4. A coordinate line whose row parses, read with the sequence id bound, and both of
  whose endpoints the mapper leaves unmapped, followed by any number of qualifier
  lines: the loop continues after them with the output it had before the feature and
  with \<open>feature_keep\<close> false. Neither the coordinate line nor any of the qualifier lines
  is written.
\<close>

theorem C4_both_endpoints_unmapped:
  assumes "is_coordinate raw"
    and "split_tab (rstrip_crlf raw) = c0 # c1 # cols"
    and "int_py c0 = Some r0" and "int_py c1 = Some r1"
    and "seqid ctx = Some sid"
    and "map_row cmap sid r0 r1 = (None, None)"
    and "\<forall>q\<in>set quals. is_qualifier q"
  shows "tbl_loop cmap cl clip ctx outf (raw # quals @ rest) =
    tbl_loop cmap cl clip (ctx\<lparr>feature_keep := Some False\<rparr>) outf rest"
proof -
  have "tbl_line cmap cl clip ctx raw = Inr (ctx\<lparr>feature_keep := Some False\<rparr>, None)"
    using assms(1-6) by (simp add: tbl_line_coord coord_line_parsed truthy_def)
  then show ?thesis
    using assms(7) by (simp add: skip_qualifiers)
qed

theorem C4_both_endpoints_unmapped_witness:
  "is_qualifier qual_product \<and> is_qualifier qual_protein_id \<and>
   tbl_loop cm_demo Map.empty False (ctx_demo\<lparr>feature_keep := Some True\<rparr>) [''>Feature B'']
       (coord_outside # [qual_product, qual_protein_id] @ [coord_inside]) =
     ([''>Feature B'', ''6'' @ [TAB] @ ''10'' @ [TAB] @ ''gene''], None)"
proof -
  have coord: "is_coordinate coord_outside"
    by code_simp
  have row: "split_tab (rstrip_crlf coord_outside) = [''1'', ''2'', ''gene'']"
    by code_simp
  have ints: "int_py ''1'' = Some 1" "int_py ''2'' = Some 2"
    by code_simp+
  have sid: "seqid (ctx_demo\<lparr>feature_keep := Some True\<rparr>) = Some ''A''"
    by (simp add: ctx_demo_def)
  have mapped: "map_row cm_demo ''A'' 1 2 = (None, None)"
    by code_simp
  have quals: "\<forall>q\<in>set [qual_product, qual_protein_id]. is_qualifier q"
    by code_simp
  have "tbl_loop cm_demo Map.empty False (ctx_demo\<lparr>feature_keep := Some True\<rparr>) [''>Feature B'']
       (coord_outside # [qual_product, qual_protein_id] @ [coord_inside]) =
     tbl_loop cm_demo Map.empty False (ctx_demo\<lparr>feature_keep := Some True\<rparr>\<lparr>feature_keep := Some False\<rparr>)
       [''>Feature B''] [coord_inside]"
    by (rule C4_both_endpoints_unmapped [OF coord row ints sid mapped quals])
  also have "\<dots> = ([''>Feature B'', ''6'' @ [TAB] @ ''10'' @ [TAB] @ ''gene''], None)"
    by code_simp
  finally show ?thesis
    using quals by simp
qed

subsection \<open>C3: both endpoints mapped\<close>

text \<open>
  C3. A coordinate line whose row parses, read with the sequence id bound, and both of
  whose endpoints the mapper maps: the feature is retained (\<open>feature_keep\<close> becomes
  true) and the line is written with the two mapped positions as plain integers in the
  first two columns and the other columns as they were; the strand \<open>forward = end >=
  start\<close> of the written line is that of the input line. The mapper is the one the
  specification describes: it keeps the order of a position rounded down and a position
  rounded up, and the positions it returns are counted from 1.
\<close>

theorem C3_both_endpoints_mapped:
  assumes "is_coordinate raw"
    and "split_tab (rstrip_crlf raw) = c0 # c1 # cols"
    and "int_py c0 = Some r0" and "int_py c1 = Some r1"
    and "seqid ctx = Some sid"
    and mstart: "mapAtoB_pos cmap sid r0 (start_bias (forward r0 r1)) = Some p0"
    and mend: "mapAtoB_pos cmap sid r1 (end_bias (forward r0 r1)) = Some p1"
    and mono: "outward_monotone cmap sid" and based: "one_based cmap sid"
  shows "tbl_line cmap cl clip ctx raw =
           Inr (ctx\<lparr>feature_keep := Some True\<rparr>,
                Some (join_tab (str_int p0 # str_int p1 # cols))) \<and>
         forward p0 p1 = forward r0 r1 \<and>
         (r0 \<noteq> r1 \<longrightarrow> sgn (p1 - p0) = sgn (r1 - r0))"
proof (intro conjI)
  from mstart mend have mapped: "map_row cmap sid r0 r1 = (Some p0, Some p1)"
    by (simp add: map_row_def forward_def start_bias_def end_bias_def split: if_splits)
  from mstart mend based have "1 \<le> p0" "1 \<le> p1"
    unfolding one_based_def by blast+
  then have "p0 \<noteq> 0" "p1 \<noteq> 0"
    by simp_all
  with assms(1-5) mapped show "tbl_line cmap cl clip ctx raw =
           Inr (ctx\<lparr>feature_keep := Some True\<rparr>,
                Some (join_tab (str_int p0 # str_int p1 # cols)))"
    by (simp add: tbl_line_coord coord_line_parsed truthy_def str_pos_def)
  have order: "(r0 \<le> r1 \<longrightarrow> p0 \<le> p1) \<and> (r0 < r1 \<longrightarrow> p0 < p1) \<and> (r1 < r0 \<longrightarrow> p1 < p0)"
  proof (cases "r1 \<ge> r0")
    case True
    with mstart mend have "mapAtoB_pos cmap sid r0 (- 1) = Some p0"
      "mapAtoB_pos cmap sid r1 1 = Some p1"
      by (simp_all add: forward_def start_bias_def end_bias_def)
    with mono have "(r0 \<le> r1 \<longrightarrow> p0 \<le> p1) \<and> (r0 < r1 \<longrightarrow> p0 < p1)"
      unfolding outward_monotone_def by blast
    with True show ?thesis by simp
  next
    case False
    with mstart mend have "mapAtoB_pos cmap sid r1 (- 1) = Some p1"
      "mapAtoB_pos cmap sid r0 1 = Some p0"
      by (simp_all add: forward_def start_bias_def end_bias_def)
    with mono have "r1 < r0 \<longrightarrow> p1 < p0"
      unfolding outward_monotone_def by blast
    with False show ?thesis by simp
  qed
  then show "forward p0 p1 = forward r0 r1"
    by (auto simp: forward_def)
  from order show "r0 \<noteq> r1 \<longrightarrow> sgn (p1 - p0) = sgn (r1 - r0)"
    by (auto simp: sgn_if)
qed

theorem C3_both_endpoints_mapped_witness:
  "outward_monotone cm_demo ''A'' \<and> one_based cm_demo ''A'' \<and>
   mapAtoB_pos cm_demo ''A'' 4 (start_bias (forward 4 8)) = Some 6 \<and>
   mapAtoB_pos cm_demo ''A'' 8 (end_bias (forward 4 8)) = Some 10 \<and>
   tbl_line cm_demo Map.empty False ctx_demo coord_inside =
     Inr (ctx_demo\<lparr>feature_keep := Some True\<rparr>, Some (''6'' @ [TAB] @ ''10'' @ [TAB] @ ''gene'')) \<and>
   forward 6 10 = forward 4 8 \<and> sgn (10 - 6 :: int) = sgn (8 - 4) \<and>
   mapAtoB_pos cm_demo ''A'' 8 (start_bias (forward 8 4)) = Some 10 \<and>
   mapAtoB_pos cm_demo ''A'' 4 (end_bias (forward 8 4)) = Some 6 \<and>
   tbl_line cm_demo Map.empty False ctx_demo coord_reverse =
     Inr (ctx_demo\<lparr>feature_keep := Some True\<rparr>, Some (''10'' @ [TAB] @ ''6'' @ [TAB] @ ''CDS'')) \<and>
   forward 10 6 = forward 8 4 \<and> sgn (6 - 10 :: int) = sgn (4 - 8)"
proof -
  have coord: "is_coordinate coord_inside" "is_coordinate coord_reverse"
    by code_simp+
  have row: "split_tab (rstrip_crlf coord_inside) = [''4'', ''8'', ''gene'']"
    "split_tab (rstrip_crlf coord_reverse) = [''8'', ''4'', ''CDS'']"
    by code_simp+
  have ints: "int_py ''4'' = Some 4" "int_py ''8'' = Some 8"
    by code_simp+
  have sid: "seqid ctx_demo = Some ''A''"
    by (simp add: ctx_demo_def)
  have fwd: "mapAtoB_pos cm_demo ''A'' 4 (start_bias (forward 4 8)) = Some 6"
    "mapAtoB_pos cm_demo ''A'' 8 (end_bias (forward 4 8)) = Some 10"
    by code_simp+
  have rev: "mapAtoB_pos cm_demo ''A'' 8 (start_bias (forward 8 4)) = Some 10"
    "mapAtoB_pos cm_demo ''A'' 4 (end_bias (forward 8 4)) = Some 6"
    by code_simp+
  have mono: "outward_monotone cm_demo ''A''"
    by (auto simp: outward_monotone_def cm_demo_def split: if_splits)
  have based: "one_based cm_demo ''A''"
    by (auto simp: one_based_def cm_demo_def split: if_splits)
  have written: "join_tab [str_int 6, str_int 10, ''gene''] = ''6'' @ [TAB] @ ''10'' @ [TAB] @ ''gene''"
    "join_tab [str_int 10, str_int 6, ''CDS''] = ''10'' @ [TAB] @ ''6'' @ [TAB] @ ''CDS''"
    by code_simp+
  have differ: "(4::int) \<noteq> 8" "(8::int) \<noteq> 4"
    by simp_all
  show ?thesis
    using C3_both_endpoints_mapped [OF coord(1) row(1) ints(1) ints(2) sid fwd mono based,
        where cl = Map.empty and clip = False]
      C3_both_endpoints_mapped [OF coord(2) row(2) ints(2) ints(1) sid rev mono based,
        where cl = Map.empty and clip = False]
      mono based fwd rev differ
    by (simp only: written simp_thms)
qed

subsection \<open>C10: lines before the first header\<close>

lemma header_line_bound:
  "header_line cmap ctx line = Inr (ctx', w) \<Longrightarrow> ctx_bound ctx'"
  by (auto simp: header_line_def Let_def ctx_bound_def split: if_splits option.splits)

lemma header_line_not_unbound: "header_line cmap ctx line \<noteq> Inl UnboundLocalError"
  by (auto simp: header_line_def Let_def split: if_splits option.splits)

lemma coord_line_bound:
  "ctx_bound ctx \<Longrightarrow> coord_line cmap cl clip ctx line = Inr (ctx', w) \<Longrightarrow> ctx_bound ctx'"
  by (auto simp: coord_line_def Let_def ctx_bound_def split: if_splits option.splits prod.splits)

lemma coord_line_not_unbound:
  "ctx_bound ctx \<Longrightarrow> coord_line cmap cl clip ctx line \<noteq> Inl UnboundLocalError"
  by (auto simp: coord_line_def Let_def ctx_bound_def split: if_splits option.splits prod.splits)

lemma qualifier_line_bound:
  "ctx_bound ctx \<Longrightarrow> qualifier_line ctx line = Inr (ctx', w) \<Longrightarrow> ctx_bound ctx'"
  by (auto simp: qualifier_line_def split: if_splits option.splits)

lemma qualifier_line_not_unbound:
  "ctx_bound ctx \<Longrightarrow> qualifier_line ctx line \<noteq> Inl UnboundLocalError"
  by (auto simp: qualifier_line_def ctx_bound_def split: if_splits option.splits)

text \<open>Once the three variables are bound they stay bound, and no read of them fails.\<close>

lemma tbl_line_bound:
  assumes "ctx_bound ctx" and "tbl_line cmap cl clip ctx raw = Inr (ctx', w)"
  shows "ctx_bound ctx'"
  using assms line_classes [of raw]
  by (auto simp: tbl_line_blank tbl_line_header tbl_line_coord tbl_line_qualifier
      dest: header_line_bound coord_line_bound qualifier_line_bound)

lemma tbl_line_not_unbound:
  assumes "ctx_bound ctx"
  shows "tbl_line cmap cl clip ctx raw \<noteq> Inl UnboundLocalError"
  using assms line_classes [of raw]
  by (auto simp: tbl_line_blank tbl_line_header tbl_line_coord tbl_line_qualifier
      header_line_not_unbound coord_line_not_unbound qualifier_line_not_unbound)

lemma tbl_loop_not_unbound:
  "ctx_bound ctx \<Longrightarrow> snd (tbl_loop cmap cl clip ctx outf doc) \<noteq> Some UnboundLocalError"
proof (induction doc arbitrary: ctx outf)
  case Nil
  then show ?case by simp
next
  case (Cons raw doc)
  show ?case
  proof (cases "tbl_line cmap cl clip ctx raw")
    case (Inl e)
    with Cons.prems tbl_line_not_unbound [of ctx cmap cl clip raw] show ?thesis
      by auto
  next
    case (Inr r)
    obtain ctx' w where r: "r = (ctx', w)" by (cases r)
    with Inr Cons.prems have "ctx_bound ctx'"
      by (auto dest: tbl_line_bound)
    with Inr r Cons.IH show ?thesis
      by (cases w) simp_all
  qed
qed

lemma header_first_not_unbound:
  "header_first doc \<Longrightarrow> snd (tbl_loop cmap cl clip ctx outf doc) \<noteq> Some UnboundLocalError"
proof (induction doc arbitrary: outf)
  case Nil
  then show ?case by simp
next
  case (Cons raw doc)
  show ?case
  proof (cases "is_blank raw")
    case True
    with Cons show ?thesis by (simp add: tbl_line_blank)
  next
    case False
    with Cons.prems have h: "is_header raw" by simp
    show ?thesis
    proof (cases "header_line cmap ctx (rstrip_crlf raw)")
      case (Inl e)
      with h header_line_not_unbound [of cmap ctx "rstrip_crlf raw"] show ?thesis
        by (auto simp: tbl_line_header)
    next
      case (Inr r)
      obtain ctx' w where r: "r = (ctx', w)" by (cases r)
      with Inr have "ctx_bound ctx'" by (auto dest: header_line_bound)
      with Inr r h show ?thesis
        by (cases w) (simp_all add: tbl_line_header tbl_loop_not_unbound)
    qed
  qed
qed

lemma blanks_loop:
  "\<forall>b\<in>set blanks. is_blank b \<Longrightarrow>
     tbl_loop cmap cl clip ctx outf (blanks @ rest) =
     tbl_loop cmap cl clip ctx (outf @ map (\<lambda>b. []) blanks) rest"
  by (induction blanks arbitrary: outf) (simp_all add: tbl_line_blank)

lemma malformed_coordinate_raises:
  assumes "malformed_coordinate raw"
  shows "tbl_line cmap cl clip ctx raw = Inl OnlyOneColumn \<or>
         tbl_line cmap cl clip ctx raw = Inl ValueError"
  using assms
  by (auto simp: malformed_coordinate_def tbl_line_coord coord_line_def Let_def
      split: option.splits)

lemma wellformed_coordinate_unbound:
  assumes "is_coordinate raw" and "\<not> malformed_coordinate raw" and "seqid ctx = None"
  shows "tbl_line cmap cl clip ctx raw = Inl UnboundLocalError"
  using assms
  by (auto simp: malformed_coordinate_def tbl_line_coord coord_line_def Let_def
      split: option.splits)

text \<open>
  The separators \<open>0x1C\<close> to \<open>0x1F\<close> are whitespace for \<open>strip\<close> and not for
  \<open>int\<close>: a coordinate line with one of them beside an endpoint is malformed, and the
  loop raises \<open>ValueError\<close> on it, before the header as well as after it.
\<close>

lemma separator_not_skipped_by_int:
  "strip ([CHR 0x1C] @ ''5'') = ''5'' \<and>
   int_py ([CHR 0x1C] @ ''5'') = None \<and> int_py (''5'' @ [CHR 0x1F]) = None \<and>
   int_py ('' 5 '') = Some 5 \<and>
   malformed_coordinate line_separator \<and>
   tbl_transfer cm_demo fasta_demo [line_separator] False = ([], Some ValueError) \<and>
   tbl_transfer cm_demo fasta_demo [header_A, line_separator] False =
     ([''>Feature B''], Some ValueError)"
  by code_simp

text \<open>
  C10 as stated fails for a coordinate line that is itself malformed: the column count
  and the two calls of \<open>int\<close> come before the first read of \<open>seqid\<close>, so the line
  \<open>abc\<close> at the start of a table raises the exception of a line with one column.
\<close>

theorem C10_malformed_line_first:
  "is_coordinate line_abc \<and>
   tbl_transfer cm_demo fasta_demo [line_abc] False = ([], Some OnlyOneColumn)"
  by code_simp

text \<open>
  C10, amended. When the first line that is not blank is a qualifier line, or a
  coordinate line with at least two columns and integer endpoints, the transfer fails
  at that line by reading an unbound variable (\<open>feature_keep\<close> for the qualifier line,
  \<open>seqid\<close> for the coordinate line), having written only the blank lines before it;
  when it is a malformed coordinate line, the transfer fails there with the exception
  of the malformed line. When a header line precedes every coordinate and qualifier
  line, no run ends in a read of an unbound variable.
\<close>

theorem C10_header_precedes:
  assumes "\<forall>b\<in>set blanks. is_blank b"
  shows "(is_qualifier raw \<or> (is_coordinate raw \<and> \<not> malformed_coordinate raw) \<longrightarrow>
            tbl_transfer cmap alt_fasta (blanks @ raw # rest) oob_clip =
              (map (\<lambda>b. []) blanks, Some UnboundLocalError)) \<and>
         (malformed_coordinate raw \<longrightarrow>
            tbl_transfer cmap alt_fasta (blanks @ raw # rest) oob_clip =
              (map (\<lambda>b. []) blanks, Some OnlyOneColumn) \<or>
            tbl_transfer cmap alt_fasta (blanks @ raw # rest) oob_clip =
              (map (\<lambda>b. []) blanks, Some ValueError)) \<and>
         (header_first doc \<longrightarrow>
            snd (tbl_transfer cmap alt_fasta doc oob_clip) \<noteq> Some UnboundLocalError)"
proof (intro conjI impI)
  assume "is_qualifier raw \<or> (is_coordinate raw \<and> \<not> malformed_coordinate raw)"
  then have "tbl_line cmap (fasta_chrlens alt_fasta) oob_clip ctx_unbound raw = Inl UnboundLocalError"
    by (auto simp: tbl_line_qualifier qualifier_line_def ctx_unbound_def
        wellformed_coordinate_unbound)
  then show "tbl_transfer cmap alt_fasta (blanks @ raw # rest) oob_clip =
              (map (\<lambda>b. []) blanks, Some UnboundLocalError)"
    using assms by (simp add: tbl_transfer_def blanks_loop)
next
  assume "malformed_coordinate raw"
  from malformed_coordinate_raises [OF this, of cmap "fasta_chrlens alt_fasta" oob_clip ctx_unbound]
  show "tbl_transfer cmap alt_fasta (blanks @ raw # rest) oob_clip =
              (map (\<lambda>b. []) blanks, Some OnlyOneColumn) \<or>
            tbl_transfer cmap alt_fasta (blanks @ raw # rest) oob_clip =
              (map (\<lambda>b. []) blanks, Some ValueError)"
    using assms by (auto simp: tbl_transfer_def blanks_loop)
next
  assume "header_first doc"
  then show "snd (tbl_transfer cmap alt_fasta doc oob_clip) \<noteq> Some UnboundLocalError"
    by (simp add: tbl_transfer_def header_first_not_unbound)
qed

theorem C10_header_precedes_witness:
  "is_blank [LF] \<and>
   is_qualifier qual_product \<and>
   tbl_transfer cm_demo fasta_demo ([[LF]] @ qual_product # [coord_inside]) False =
     ([[]], Some UnboundLocalError) \<and>
   is_coordinate coord_inside \<and> \<not> malformed_coordinate coord_inside \<and>
   tbl_transfer cm_demo fasta_demo ([[LF]] @ coord_inside # [qual_product]) False =
     ([[]], Some UnboundLocalError) \<and>
   malformed_coordinate line_abc \<and>
   (tbl_transfer cm_demo fasta_demo ([[LF]] @ line_abc # [coord_inside]) False =
      ([[]], Some OnlyOneColumn) \<or>
    tbl_transfer cm_demo fasta_demo ([[LF]] @ line_abc # [coord_inside]) False =
      ([[]], Some ValueError)) \<and>
   malformed_coordinate line_separator \<and>
   (tbl_transfer cm_demo fasta_demo ([[LF]] @ line_separator # [coord_inside]) False =
      ([[]], Some OnlyOneColumn) \<or>
    tbl_transfer cm_demo fasta_demo ([[LF]] @ line_separator # [coord_inside]) False =
      ([[]], Some ValueError)) \<and>
   header_first tbl_overhang \<and>
   snd (tbl_transfer cm_demo fasta_demo tbl_overhang False) \<noteq> Some UnboundLocalError"
proof -
  have blanks: "\<forall>b\<in>set [[LF]]. is_blank b"
    by code_simp
  have qual: "is_qualifier qual_product"
    by code_simp
  have coord: "is_coordinate coord_inside" "\<not> malformed_coordinate coord_inside"
    by code_simp+
  have bad: "malformed_coordinate line_abc" "malformed_coordinate line_separator"
    by code_simp+
  have first: "header_first tbl_overhang"
    by code_simp
  have written: "map (\<lambda>b. []) [[LF]] = [[] :: string]"
    by simp
  have blank: "is_blank [LF]"
    by code_simp
  show ?thesis
    using blank qual coord bad first
      C10_header_precedes [OF blanks, where raw = qual_product and rest = "[coord_inside]"
        and cmap = cm_demo and alt_fasta = fasta_demo and oob_clip = False and doc = tbl_overhang]
      C10_header_precedes [OF blanks, where raw = coord_inside and rest = "[qual_product]"
        and cmap = cm_demo and alt_fasta = fasta_demo and oob_clip = False and doc = tbl_overhang]
      C10_header_precedes [OF blanks, where raw = line_abc and rest = "[coord_inside]"
        and cmap = cm_demo and alt_fasta = fasta_demo and oob_clip = False and doc = tbl_overhang]
      C10_header_precedes [OF blanks, where raw = line_separator and rest = "[coord_inside]"
        and cmap = cm_demo and alt_fasta = fasta_demo and oob_clip = False and doc = tbl_overhang]
    unfolding written by blast
qed

subsection \<open>C8: when the transfer fails\<close>

text \<open>The test of the header branch is the wrapper \<open>gb|ACCESSION|\<close>.\<close>

lemma gb_wrapped_iff [code]:
  "gb_wrapped sid = (startswith ''gb|'' sid \<and> endswith ''|'' sid \<and> length sid > 4)"
proof
  assume "gb_wrapped sid"
  then obtain acc where "acc \<noteq> []" "sid = ''gb|'' @ acc @ ''|''"
    unfolding gb_wrapped_def by blast
  then show "startswith ''gb|'' sid \<and> endswith ''|'' sid \<and> length sid > 4"
    by (cases acc) (simp_all add: startswith_def endswith_def)
next
  assume a: "startswith ''gb|'' sid \<and> endswith ''|'' sid \<and> length sid > 4"
  let ?acc = "drop 3 (butlast sid)"
  from a have "drop (length sid - 1) sid = ''|''"
    by (simp add: endswith_def)
  then have e: "sid = butlast sid @ ''|''"
    by (metis append_take_drop_id butlast_conv_take)
  from a have "take 3 sid = ''gb|''"
    by (simp add: startswith_def numeral_3_eq_3)
  then have "sid = ''gb|'' @ drop 3 sid"
    by (metis append_take_drop_id)
  also have "drop 3 sid = ?acc @ ''|''"
    using a by (subst e) simp
  finally have "sid = ''gb|'' @ ?acc @ ''|''" .
  moreover from a have "4 < length sid"
    by blast
  then have "length (butlast sid) > 3"
    by simp
  then have "?acc \<noteq> []"
    by simp
  ultimately show "gb_wrapped sid"
    unfolding gb_wrapped_def by blast
qed

lemma malformed_header_raises:
  assumes "malformed_header raw"
  shows "tbl_line cmap cl clip ctx raw = Inl NonFeatureRecord \<or>
         tbl_line cmap cl clip ctx raw = Inl NotGenBankAccession"
  using assms
  by (auto simp: malformed_header_def tbl_line_header header_line_def Let_def gb_wrapped_iff)

lemma malformed_raises:
  assumes "malformed_header raw \<or> malformed_coordinate raw"
  shows "\<exists>e. tbl_line cmap cl clip ctx raw = Inl e"
  using assms malformed_header_raises [of raw cmap cl clip ctx]
    malformed_coordinate_raises [of raw cmap cl clip ctx]
  by auto

text \<open>A malformed line anywhere in the document makes the run fail, at that line or before.\<close>

lemma malformed_fails_loop:
  "\<exists>raw\<in>set doc. malformed_header raw \<or> malformed_coordinate raw \<Longrightarrow>
     snd (tbl_loop cmap cl clip ctx outf doc) \<noteq> None"
proof (induction doc arbitrary: ctx outf)
  case Nil
  then show ?case by simp
next
  case (Cons raw doc)
  show ?case
  proof (cases "tbl_line cmap cl clip ctx raw")
    case (Inl e)
    then show ?thesis by simp
  next
    case (Inr r)
    obtain ctx' w where r: "r = (ctx', w)" by (cases r)
    from Inr malformed_raises [of raw cmap cl clip ctx]
    have "\<not> (malformed_header raw \<or> malformed_coordinate raw)"
      by auto
    with Cons.prems have "\<exists>raw\<in>set doc. malformed_header raw \<or> malformed_coordinate raw"
      by auto
    with Inr r Cons.IH show ?thesis
      by (cases w) simp_all
  qed
qed

lemma header_line_ok:
  assumes "is_header raw" and "\<not> malformed_header raw"
    and "mapAtoB_chr cmap (accession raw) = Some aid" and "clip \<longrightarrow> cl aid \<noteq> None"
  shows "\<exists>ctx' w. tbl_line cmap cl clip ctx raw = Inr (ctx', w) \<and> ctx_ok cl clip ctx'"
  using assms
  by (auto simp: tbl_line_header malformed_header_def header_line_def Let_def gb_wrapped_iff
      accession_def ctx_ok_def)

lemma two_columns:
  "\<not> length row < 2 \<Longrightarrow> \<exists>c0 c1 cols. row = c0 # c1 # cols"
  by (cases row; cases "tl row") auto

lemma coord_line_ok:
  assumes "is_coordinate raw" and "\<not> malformed_coordinate raw" and "ctx_ok cl clip ctx"
  shows "\<exists>ctx' w. tbl_line cmap cl clip ctx raw = Inr (ctx', w) \<and> ctx_ok cl clip ctx'"
proof -
  from assms(1,2) have "\<not> length (split_tab (rstrip_crlf raw)) < 2"
    by (auto simp: malformed_coordinate_def Let_def)
  then obtain c0 c1 cols where row: "split_tab (rstrip_crlf raw) = c0 # c1 # cols"
    using two_columns by blast
  with assms(1,2) obtain r0 r1 where ints: "int_py c0 = Some r0" "int_py c1 = Some r1"
    by (auto simp: malformed_coordinate_def Let_def)
  from assms(3) obtain sid where sid: "seqid ctx = Some sid"
    by (auto simp: ctx_ok_def)
  obtain m0 m1 where mapped: "map_row cmap sid r0 r1 = (m0, m1)"
    by (cases "map_row cmap sid r0 r1")
  show ?thesis
    using assms(3)
    by (auto simp: tbl_line_coord [OF assms(1)] coord_line_parsed [OF row ints sid mapped]
        ctx_ok_def Let_def split: option.splits)
qed

lemma qualifier_line_ok:
  assumes "is_qualifier raw" and "ctx_ok cl clip ctx"
  shows "\<exists>ctx' w. tbl_line cmap cl clip ctx raw = Inr (ctx', w) \<and> ctx_ok cl clip ctx'"
  using assms
  by (auto simp: tbl_line_qualifier qualifier_line_def ctx_ok_def)

text \<open>
  With the identifiers known and the variables bound, a line that is not malformed is
  processed without an exception.
\<close>

lemma tbl_line_ok:
  assumes "ctx_ok cl clip ctx"
    and "\<not> malformed_header raw" and "\<not> malformed_coordinate raw"
    and "is_header raw \<longrightarrow> id_known cmap cl clip raw"
  shows "\<exists>ctx' w. tbl_line cmap cl clip ctx raw = Inr (ctx', w) \<and> ctx_ok cl clip ctx'"
proof -
  consider "is_blank raw" | "is_header raw" | "is_coordinate raw" | "is_qualifier raw"
    using line_classes [of raw] by blast
  then show ?thesis
  proof cases
    case 1
    with assms(1) show ?thesis by (simp add: tbl_line_blank)
  next
    case 2
    with assms(4) obtain aid where "mapAtoB_chr cmap (accession raw) = Some aid"
      "clip \<longrightarrow> cl aid \<noteq> None"
      by (auto simp: id_known_def split: option.splits)
    with 2 assms(2) show ?thesis by (rule header_line_ok)
  next
    case 3
    from 3 assms(3) assms(1) show ?thesis by (rule coord_line_ok)
  next
    case 4
    from 4 assms(1) show ?thesis by (rule qualifier_line_ok)
  qed
qed

lemma ids_known_Cons:
  "ids_known cmap cl clip (raw # doc) =
     ((is_header raw \<and> \<not> malformed_header raw \<longrightarrow> id_known cmap cl clip raw) \<and>
      ids_known cmap cl clip doc)"
  by (simp add: ids_known_def)

lemma tbl_loop_ok:
  assumes "ctx_ok cl clip ctx"
    and "\<forall>raw\<in>set doc. \<not> (malformed_header raw \<or> malformed_coordinate raw)"
    and "ids_known cmap cl clip doc"
  shows "snd (tbl_loop cmap cl clip ctx outf doc) = None"
  using assms
proof (induction doc arbitrary: ctx outf)
  case Nil
  then show ?case by simp
next
  case (Cons raw doc)
  from Cons.prems obtain ctx' w where
    step: "tbl_line cmap cl clip ctx raw = Inr (ctx', w)" and ok: "ctx_ok cl clip ctx'"
    using tbl_line_ok [of cl clip ctx raw cmap] by (auto simp: ids_known_Cons)
  from Cons.prems have "snd (tbl_loop cmap cl clip ctx' outf' doc) = None" for outf'
    using ok by (intro Cons.IH) (auto simp: ids_known_Cons)
  with step show ?case
    by (cases w) simp_all
qed

lemma header_first_ok:
  assumes "header_first doc"
    and "\<forall>raw\<in>set doc. \<not> (malformed_header raw \<or> malformed_coordinate raw)"
    and "ids_known cmap cl clip doc"
  shows "snd (tbl_loop cmap cl clip ctx outf doc) = None"
  using assms
proof (induction doc arbitrary: outf)
  case Nil
  then show ?case by simp
next
  case (Cons raw doc)
  show ?case
  proof (cases "is_blank raw")
    case True
    with Cons show ?thesis by (simp add: tbl_line_blank ids_known_Cons)
  next
    case False
    with Cons.prems have h: "is_header raw" by simp
    with Cons.prems obtain aid where "mapAtoB_chr cmap (accession raw) = Some aid"
      "clip \<longrightarrow> cl aid \<noteq> None"
      by (auto simp: ids_known_def id_known_def split: option.splits)
    with h Cons.prems obtain ctx' w where
      step: "tbl_line cmap cl clip ctx raw = Inr (ctx', w)" and ok: "ctx_ok cl clip ctx'"
      using header_line_ok [of raw cmap aid clip cl ctx] by auto
    from Cons.prems have "snd (tbl_loop cmap cl clip ctx' outf' doc) = None" for outf'
      using ok by (intro tbl_loop_ok) (auto simp: ids_known_Cons)
    with step show ?thesis
      by (cases w) simp_all
  qed
qed

text \<open>
  A run that fails stops at one line: the lines before it were processed without an
  exception, and the output is what they wrote.
\<close>

lemma tbl_loop_error_split:
  "tbl_loop cmap cl clip ctx outf doc = (out, Some e) \<Longrightarrow>
     \<exists>pre raw post. doc = pre @ raw # post \<and>
       tbl_loop cmap cl clip ctx outf pre = (out, None) \<and>
       tbl_loop cmap cl clip ctx outf (pre @ [raw]) = (out, Some e)"
proof (induction doc arbitrary: ctx outf)
  case Nil
  then show ?case by simp
next
  case (Cons raw doc)
  show ?case
  proof (cases "tbl_line cmap cl clip ctx raw")
    case (Inl e')
    with Cons.prems have "tbl_loop cmap cl clip ctx outf [] = (out, None)"
      "tbl_loop cmap cl clip ctx outf ([] @ [raw]) = (out, Some e)"
      by simp_all
    then show ?thesis by blast
  next
    case (Inr r)
    obtain ctx' w where r: "r = (ctx', w)" by (cases r)
    define outf' where "outf' = (case w of None \<Rightarrow> outf | Some line \<Rightarrow> outf @ [line])"
    have unroll: "tbl_loop cmap cl clip ctx outf (raw # xs) = tbl_loop cmap cl clip ctx' outf' xs"
      for xs
      using Inr r by (cases w) (simp_all add: outf'_def)
    with Cons.prems have "tbl_loop cmap cl clip ctx' outf' doc = (out, Some e)"
      by simp
    from Cons.IH [OF this] obtain pre x post where
      "doc = pre @ x # post" "tbl_loop cmap cl clip ctx' outf' pre = (out, None)"
      "tbl_loop cmap cl clip ctx' outf' (pre @ [x]) = (out, Some e)"
      by blast
    then have "raw # doc = (raw # pre) @ x # post"
      "tbl_loop cmap cl clip ctx outf (raw # pre) = (out, None)"
      "tbl_loop cmap cl clip ctx outf ((raw # pre) @ [x]) = (out, Some e)"
      by (simp_all add: unroll del: tbl_loop.simps)
    then show ?thesis by blast
  qed
qed

text \<open>
  C8 as stated fails in its "only if" half: other things than a malformed line make
  the transfer fail. A header line of the right form whose accession the mapper does
  not know raises the exception of the mapper.
\<close>

theorem C8_unknown_accession_fails:
  "\<not> malformed_header header_X \<and> \<not> malformed_coordinate header_X \<and>
   tbl_transfer cm_demo fasta_demo [header_X] False = ([], Some UnmappableIdentifier)"
  by code_simp

text \<open>
  C8, amended. A malformed header line or a malformed coordinate line anywhere in the
  document makes the transfer fail. When a header precedes every coordinate and
  qualifier line, the mapper knows the accession of every header and, with clipping
  on, the length table has the alternate ids, the transfer fails only if the document
  has a malformed line; in particular an unmapped endpoint does not make it fail. A
  failing run stops at one line and writes nothing after the output of the lines before
  it. The other failures are those that the hypotheses exclude: an accession the mapper
  rejects, a coordinate or qualifier line before the first header, an alternate id
  without a length when an end is clipped.
\<close>

theorem C8_failure_characterised:
  "((\<exists>raw\<in>set doc. malformed_header raw \<or> malformed_coordinate raw) \<longrightarrow>
      snd (tbl_transfer cmap alt_fasta doc oob_clip) \<noteq> None) \<and>
   (header_first doc \<longrightarrow> ids_known cmap (fasta_chrlens alt_fasta) oob_clip doc \<longrightarrow>
      snd (tbl_transfer cmap alt_fasta doc oob_clip) \<noteq> None \<longrightarrow>
      (\<exists>raw\<in>set doc. malformed_header raw \<or> malformed_coordinate raw)) \<and>
   (tbl_transfer cmap alt_fasta doc oob_clip = (out, Some e) \<longrightarrow>
      (\<exists>pre raw post. doc = pre @ raw # post \<and>
         tbl_transfer cmap alt_fasta pre oob_clip = (out, None) \<and>
         tbl_transfer cmap alt_fasta (pre @ [raw]) oob_clip = (out, Some e)))"
proof (intro conjI impI)
  assume "\<exists>raw\<in>set doc. malformed_header raw \<or> malformed_coordinate raw"
  then show "snd (tbl_transfer cmap alt_fasta doc oob_clip) \<noteq> None"
    unfolding tbl_transfer_def by (rule malformed_fails_loop)
next
  assume hf: "header_first doc"
    and ids: "ids_known cmap (fasta_chrlens alt_fasta) oob_clip doc"
    and failed: "snd (tbl_transfer cmap alt_fasta doc oob_clip) \<noteq> None"
  show "\<exists>raw\<in>set doc. malformed_header raw \<or> malformed_coordinate raw"
  proof (rule ccontr)
    assume "\<not> (\<exists>raw\<in>set doc. malformed_header raw \<or> malformed_coordinate raw)"
    then have "\<forall>raw\<in>set doc. \<not> (malformed_header raw \<or> malformed_coordinate raw)"
      by blast
    with hf have "snd (tbl_loop cmap (fasta_chrlens alt_fasta) oob_clip ctx_unbound [] doc) = None"
      using ids by (rule header_first_ok)
    with failed show False
      by (simp add: tbl_transfer_def)
  qed
next
  assume "tbl_transfer cmap alt_fasta doc oob_clip = (out, Some e)"
  then show "\<exists>pre raw post. doc = pre @ raw # post \<and>
         tbl_transfer cmap alt_fasta pre oob_clip = (out, None) \<and>
         tbl_transfer cmap alt_fasta (pre @ [raw]) oob_clip = (out, Some e)"
    unfolding tbl_transfer_def by (rule tbl_loop_error_split)
qed

text \<open>
  The theorem at a table with a malformed line, which fails, and at a table without
  one, in which a feature is dropped and another clipped, which does not.
\<close>

theorem C8_failure_characterised_witness:
  "(\<exists>raw\<in>set tbl_malformed. malformed_header raw \<or> malformed_coordinate raw) \<and>
   header_first tbl_malformed \<and>
   ids_known cm_demo (fasta_chrlens fasta_demo) False tbl_malformed \<and>
   tbl_transfer cm_demo fasta_demo tbl_malformed False = ([''>Feature B''], Some OnlyOneColumn) \<and>
   (\<exists>pre raw post. tbl_malformed = pre @ raw # post \<and>
      tbl_transfer cm_demo fasta_demo pre False = ([''>Feature B''], None) \<and>
      tbl_transfer cm_demo fasta_demo (pre @ [raw]) False = ([''>Feature B''], Some OnlyOneColumn)) \<and>
   header_first tbl_overhang \<and>
   ids_known cm_demo (fasta_chrlens fasta_demo) True tbl_overhang \<and>
   \<not> (\<exists>raw\<in>set tbl_overhang. malformed_header raw \<or> malformed_coordinate raw) \<and>
   snd (tbl_transfer cm_demo fasta_demo tbl_overhang True) = None"
proof -
  have bad: "\<exists>raw\<in>set tbl_malformed. malformed_header raw \<or> malformed_coordinate raw"
    by code_simp
  have first: "header_first tbl_malformed" "header_first tbl_overhang"
    by code_simp+
  have ids: "ids_known cm_demo (fasta_chrlens fasta_demo) False tbl_malformed"
    "ids_known cm_demo (fasta_chrlens fasta_demo) True tbl_overhang"
    by code_simp+
  have run: "tbl_transfer cm_demo fasta_demo tbl_malformed False =
      ([''>Feature B''], Some OnlyOneColumn)"
    by code_simp
  have good: "\<not> (\<exists>raw\<in>set tbl_overhang. malformed_header raw \<or> malformed_coordinate raw)"
    by code_simp
  show ?thesis
    using bad first ids run good
      C8_failure_characterised [of tbl_malformed cm_demo fasta_demo False
        "[''>Feature B'']" OnlyOneColumn]
      C8_failure_characterised [of tbl_overhang cm_demo fasta_demo True "[]" KeyError]
    by blast
qed

subsection \<open>C9: transfer under the identity mapping\<close>

lemma split_tab_nonempty: "split_tab s \<noteq> []"
  by (induction s) (auto split: list.splits)

lemma join_tab_Cons: "join_tab ((c # f) # fs) = c # join_tab (f # fs)"
  by (cases fs) simp_all

lemma join_tab_Nil_Cons: "fs \<noteq> [] \<Longrightarrow> join_tab ([] # fs) = TAB # join_tab fs"
  by (cases fs) simp_all

text \<open>Joining the fields of a line with tabs gives the line back.\<close>

lemma join_split_tab: "join_tab (split_tab s) = s"
proof (induction s)
  case Nil
  then show ?case by simp
next
  case (Cons c s)
  then show ?case
    by (cases "split_tab s")
      (simp_all add: split_tab_nonempty join_tab_Nil_Cons join_tab_Cons del: join_tab.simps)
qed

text \<open>Digits: what \<open>str\<close> prints, \<open>int\<close> reads back.\<close>

lemma digit_table: "\<forall>d\<in>set [0..<10]. is_digit (digit_char d) \<and> digit_val (digit_char d) = d"
  by code_simp

lemma digit_char_props:
  assumes "d < 10"
  shows "is_digit (digit_char d)" and "digit_val (digit_char d) = d"
proof -
  from assms have "d \<in> set [0..<10]"
    by simp
  with digit_table show "is_digit (digit_char d)" and "digit_val (digit_char d) = d"
    by blast+
qed

lemma is_digit_not_space: "is_digit c \<Longrightarrow> \<not> is_space_int c"
  by (auto simp: is_digit_def is_space_int_def)

lemma is_digit_not_sign: "is_digit c \<Longrightarrow> c \<noteq> CHR ''-'' \<and> c \<noteq> CHR ''+''"
  by (auto simp: is_digit_def)

lemma py_digits_all_digits:
  "\<forall>c\<in>set ds. is_digit c \<Longrightarrow> ds \<noteq> [] \<or> \<not> need \<Longrightarrow>
     py_digits need acc ds = Some (foldl (\<lambda>a c. 10 * a + digit_val c) acc ds)"
  by (induction ds arbitrary: need acc) auto

lemma str_nat_digits: "\<forall>c\<in>set (str_nat n). is_digit c"
proof (induction n rule: str_nat.induct)
  case (1 n)
  show ?case
  proof (cases "n < 10")
    case True
    then show ?thesis by (subst str_nat.simps) (simp add: digit_char_props)
  next
    case False
    with 1 show ?thesis by (subst str_nat.simps) (simp add: digit_char_props)
  qed
qed

lemma str_nat_nonempty: "str_nat n \<noteq> []"
  by (subst str_nat.simps) simp

lemma foldl_str_nat: "foldl (\<lambda>a c. 10 * a + digit_val c) 0 (str_nat n) = n"
proof (induction n rule: str_nat.induct)
  case (1 n)
  show ?case
  proof (cases "n < 10")
    case True
    then show ?thesis by (subst str_nat.simps) (simp add: digit_char_props)
  next
    case False
    with 1 show ?thesis by (subst str_nat.simps) (simp add: digit_char_props)
  qed
qed

lemma py_digits_str_nat: "py_digits True 0 (str_nat n) = Some n"
  by (simp add: py_digits_all_digits str_nat_digits str_nat_nonempty foldl_str_nat)

lemma strip_no_space:
  assumes "\<forall>c\<in>set s. \<not> is_space_int c"
  shows "strip_int s = s"
proof -
  have "dropWhile is_space_int xs = xs" if "\<forall>c\<in>set xs. \<not> is_space_int c" for xs
    using that by (cases xs) simp_all
  from this [of s] this [of "rev s"] assms show ?thesis
    by (simp add: strip_int_def)
qed

lemma strip_str_nat: "strip_int (str_nat n) = str_nat n"
  using str_nat_digits [of n] by (intro strip_no_space) (blast dest: is_digit_not_space)

lemma minus_not_space: "\<not> is_space_int CHR ''-''"
  by (simp add: is_space_int_def)

lemma strip_minus_str_nat: "strip_int (CHR ''-'' # str_nat n) = CHR ''-'' # str_nat n"
proof (rule strip_no_space)
  show "\<forall>c\<in>set (CHR ''-'' # str_nat n). \<not> is_space_int c"
    using str_nat_digits [of n] minus_not_space by (auto dest: is_digit_not_space)
qed

lemma int_py_str_int: "int_py (str_int i) = Some i"
proof (cases "i < 0")
  case True
  then show ?thesis
    by (simp add: str_int_def int_py_def strip_minus_str_nat py_digits_str_nat)
next
  case False
  obtain c cs where s: "str_nat (nat i) = c # cs"
    using str_nat_nonempty [of "nat i"] by (cases "str_nat (nat i)") auto
  with str_nat_digits [of "nat i"] have "is_digit c" by simp
  then have sign: "c \<noteq> CHR ''-''" "c \<noteq> CHR ''+''"
    by (simp_all add: is_digit_not_sign)
  have digits: "py_digits True 0 (c # cs) = Some (nat i)"
    using py_digits_str_nat [of "nat i"] by (simp only: s)
  have stripped: "strip_int (c # cs) = c # cs"
    using strip_str_nat [of "nat i"] by (simp only: s)
  have "int_py (c # cs) = Some i"
    using False by (simp add: int_py_def stripped sign digits del: py_digits.simps)
  with False show ?thesis
    by (simp add: str_int_def s)
qed

text \<open>
  So every coordinate line whose first two columns were printed by \<open>str\<close> from integers
  other than zero is canonical.
\<close>

lemma printed_coordinate_canonical:
  assumes "is_coordinate raw"
    and "split_tab (rstrip_crlf raw) = str_int r0 # str_int r1 # cols"
    and "r0 \<noteq> 0" and "r1 \<noteq> 0"
  shows "canonical_coordinate raw"
  using assms by (simp add: canonical_coordinate_def int_py_str_int)

lemma is_coordinate_not_header: "is_coordinate raw \<Longrightarrow> \<not> is_header raw"
  by (simp add: is_coordinate_def is_header_def Let_def)

lemma is_qualifier_not_header: "is_qualifier raw \<Longrightarrow> \<not> is_header raw"
  by (auto simp: is_qualifier_def is_header_def Let_def startswith_gt TAB_def)

lemma is_blank_not_header: "is_blank raw \<Longrightarrow> \<not> is_header raw"
  by (simp add: is_blank_def is_header_def startswith_gt)

lemma identity_header:
  assumes "is_header raw" and "\<not> malformed_header raw"
  shows "\<exists>ctx'. tbl_line cm_identity cl clip ctx raw = Inr (ctx', Some (expected_line raw)) \<and>
           ctx_keep ctx'"
  using assms
  by (auto simp: tbl_line_header malformed_header_def header_line_def Let_def gb_wrapped_iff
      accession_def ctx_keep_def cm_identity_def expected_line_def)

lemma identity_coordinate:
  assumes "canonical_coordinate raw" and "ctx_keep ctx"
  shows "tbl_line cm_identity cl clip ctx raw = Inr (ctx, Some (expected_line raw))"
proof -
  from assms(1) have coord: "is_coordinate raw"
    by (simp add: canonical_coordinate_def)
  from assms(1) obtain c0 c1 cols r0 r1 where
    row: "split_tab (rstrip_crlf raw) = c0 # c1 # cols" and
    ints: "int_py c0 = Some r0" "int_py c1 = Some r1" and
    canon: "r0 \<noteq> 0" "r1 \<noteq> 0" "str_int r0 = c0" "str_int r1 = c1"
    by (auto simp: canonical_coordinate_def split: list.splits option.splits)
  from assms(2) obtain sid where sid: "seqid ctx = Some sid"
    by (auto simp: ctx_keep_def)
  have mapped: "map_row cm_identity sid r0 r1 = (Some r0, Some r1)"
    by (simp add: map_row_def cm_identity_def)
  have "join_tab (c0 # c1 # cols) = rstrip_crlf raw"
    using join_split_tab [of "rstrip_crlf raw"] by (simp only: row)
  moreover have "ctx\<lparr>feature_keep := Some True\<rparr> = ctx"
    using assms(2) by (simp add: ctx_keep_def)
  ultimately show ?thesis
    using canon coord
    by (simp add: tbl_line_coord [OF coord] coord_line_parsed [OF row ints sid mapped]
        truthy_def str_pos_def expected_line_def is_coordinate_not_header del: join_tab.simps)
qed

lemma identity_line:
  assumes "roundtrip_line raw" and "ctx_keep ctx"
  shows "\<exists>ctx'. tbl_line cm_identity cl clip ctx raw = Inr (ctx', Some (expected_line raw)) \<and>
           ctx_keep ctx'"
proof -
  consider "is_blank raw" | "is_header raw" "\<not> malformed_header raw"
    | "canonical_coordinate raw"
    | "is_qualifier raw" "\<not> contains ''protein_id'' (rstrip_crlf raw)"
    using assms(1) unfolding roundtrip_line_def by blast
  then show ?thesis
  proof cases
    case 1
    with assms(2) show ?thesis
      by (simp add: tbl_line_blank expected_line_def is_blank_not_header is_blank_def)
  next
    case 2
    then show ?thesis by (rule identity_header)
  next
    case 3
    with assms(2) show ?thesis by (simp add: identity_coordinate)
  next
    case 4
    with assms(2) show ?thesis
      by (simp add: tbl_line_qualifier qualifier_line_def ctx_keep_def expected_line_def
          is_qualifier_not_header)
  qed
qed

lemma identity_loop:
  assumes "ctx_keep ctx" and "\<forall>raw\<in>set doc. roundtrip_line raw"
  shows "tbl_loop cm_identity cl clip ctx outf doc = (outf @ map expected_line doc, None)"
  using assms
proof (induction doc arbitrary: ctx outf)
  case Nil
  then show ?case by simp
next
  case (Cons raw doc)
  from Cons.prems obtain ctx' where
    step: "tbl_line cm_identity cl clip ctx raw = Inr (ctx', Some (expected_line raw))"
    and keep: "ctx_keep ctx'"
    using identity_line [of raw ctx cl clip] by auto
  from Cons.prems keep
  have "tbl_loop cm_identity cl clip ctx' (outf @ [expected_line raw]) doc =
      ((outf @ [expected_line raw]) @ map expected_line doc, None)"
    by (intro Cons.IH) simp_all
  with step show ?case by simp
qed

lemma identity_header_first:
  assumes "header_first doc" and "\<forall>raw\<in>set doc. roundtrip_line raw"
  shows "tbl_loop cm_identity cl clip ctx outf doc = (outf @ map expected_line doc, None)"
  using assms
proof (induction doc arbitrary: outf)
  case Nil
  then show ?case by simp
next
  case (Cons raw doc)
  show ?case
  proof (cases "is_blank raw")
    case True
    with Cons.prems
    have "tbl_loop cm_identity cl clip ctx (outf @ [[]]) doc =
        ((outf @ [[]]) @ map expected_line doc, None)"
      by (intro Cons.IH) simp_all
    with True show ?thesis
      by (simp add: tbl_line_blank expected_line_def is_blank_not_header is_blank_def)
  next
    case False
    with Cons.prems have h: "is_header raw" by simp
    with Cons.prems have "\<not> malformed_header raw"
      by (auto simp: roundtrip_line_def canonical_coordinate_def
          dest: is_coordinate_not_header is_qualifier_not_header is_blank_not_header)
    with h obtain ctx' where
      step: "tbl_line cm_identity cl clip ctx raw = Inr (ctx', Some (expected_line raw))"
      and keep: "ctx_keep ctx'"
      using identity_header [of raw cl clip ctx] by auto
    from keep Cons.prems
    have "tbl_loop cm_identity cl clip ctx' (outf @ [expected_line raw]) doc =
        ((outf @ [expected_line raw]) @ map expected_line doc, None)"
      by (intro identity_loop) simp_all
    with step show ?thesis by simp
  qed
qed

text \<open>
  C9 as stated fails: a well-formed document with a protein identifier does not come
  back, since the qualifier line with \<open>protein_id\<close> is never written.
\<close>

theorem C9_protein_id_lost:
  "header_first tbl_protein \<and>
   wellformed_line header_A \<and> wellformed_line coord_inside \<and> wellformed_line qual_protein_id \<and>
   tbl_transfer cm_identity fasta_demo tbl_protein False =
     ([''>Feature A'', ''4'' @ [TAB] @ ''8'' @ [TAB] @ ''gene''], None) \<and>
   fst (tbl_transfer cm_identity fasta_demo tbl_protein False) \<noteq> map expected_line tbl_protein"
  by code_simp

text \<open>
  C9, amended. Under the identity mapping, a document in which a header precedes every
  coordinate and qualifier line, every header is well-formed, the two endpoints of
  every coordinate line are written as \<open>str\<close> prints them and are not zero, and no
  qualifier line contains \<open>protein_id\<close>, is transferred without an exception, and the
  output consists of the lines of the input, in order and without their terminators,
  the headers with the accession unwrapped. Blank lines are among them.
\<close>

theorem C9_identity_transfer:
  assumes "header_first doc" and "\<forall>raw\<in>set doc. roundtrip_line raw"
  shows "tbl_transfer cm_identity alt_fasta doc oob_clip = (map expected_line doc, None)"
  using identity_header_first [OF assms, of "fasta_chrlens alt_fasta" oob_clip ctx_unbound "[]"]
  by (simp add: tbl_transfer_def)

theorem C9_identity_transfer_witness:
  "header_first tbl_roundtrip \<and>
   roundtrip_line header_A \<and> roundtrip_line [LF] \<and> roundtrip_line coord_inside \<and>
   roundtrip_line qual_product \<and> roundtrip_line coord_reverse \<and>
   tbl_transfer cm_identity fasta_demo tbl_roundtrip False =
     ([''>Feature A'', [], ''4'' @ [TAB] @ ''8'' @ [TAB] @ ''gene'',
       [TAB, TAB, TAB] @ ''product'' @ [TAB] @ ''foo'',
       ''8'' @ [TAB] @ ''4'' @ [TAB] @ ''CDS''], None)"
proof -
  have first: "header_first tbl_roundtrip"
    by code_simp
  have lines: "\<forall>raw\<in>set tbl_roundtrip. roundtrip_line raw"
    by code_simp
  have expected: "map expected_line tbl_roundtrip =
      [''>Feature A'', [], ''4'' @ [TAB] @ ''8'' @ [TAB] @ ''gene'',
       [TAB, TAB, TAB] @ ''product'' @ [TAB] @ ''foo'',
       ''8'' @ [TAB] @ ''4'' @ [TAB] @ ''CDS'']"
    by code_simp
  have each: "roundtrip_line header_A" "roundtrip_line [LF]" "roundtrip_line coord_inside"
    "roundtrip_line qual_product" "roundtrip_line coord_reverse"
    by code_simp+
  show ?thesis
    using first each C9_identity_transfer [OF first lines, of fasta_demo False]
    by (simp only: expected simp_thms)
qed

end
